theory Spec2Isabelle
  imports Complex_Main
begin

section \<open>JavaScript numbers\<close>

text \<open>
  The calculator of \<^verbatim>\<open>App.tsx\<close> computes on JavaScript numbers. A number is
  modelled as a finite value, one of the two infinities, or NaN. The special values follow
  IEEE 754: \<open>0 / 0\<close> is NaN, a non-zero value divided by zero is an infinity, NaN
  propagates through every operation and every comparison with NaN is false.

  Finite values are idealised as exact reals: rounding, overflow and underflow of double
  precision are not modelled, and neither is the sign of zero (a zero divisor counts as
  \<open>+0\<close>). Every statement below about a finite result is a statement about this exact
  arithmetic. The theorems on validity and on the shape of the result do not depend on
  the arithmetic. Those on a zero rate and on an initial capital at or above the target
  rest on values that double precision computes exactly, on the sign of a difference of
  two inputs, and on comparisons with NaN, which are false whatever the other operand.
  The lemmas on positive rates that rely on exact arithmetic are collected in the last
  section.
\<close>

datatype number = Fin real | PInf | NInf | NaN

fun num_neg :: "number \<Rightarrow> number" where
  "num_neg (Fin x) = Fin (- x)"
| "num_neg PInf = NInf"
| "num_neg NInf = PInf"
| "num_neg NaN = NaN"

fun num_add :: "number \<Rightarrow> number \<Rightarrow> number" where
  "num_add NaN _ = NaN"
| "num_add _ NaN = NaN"
| "num_add (Fin x) (Fin y) = Fin (x + y)"
| "num_add PInf NInf = NaN"
| "num_add NInf PInf = NaN"
| "num_add PInf _ = PInf"
| "num_add _ PInf = PInf"
| "num_add NInf _ = NInf"
| "num_add _ NInf = NInf"

definition num_sub :: "number \<Rightarrow> number \<Rightarrow> number" where
  "num_sub a b = num_add a (num_neg b)"

fun num_mul :: "number \<Rightarrow> number \<Rightarrow> number" where
  "num_mul NaN _ = NaN"
| "num_mul _ NaN = NaN"
| "num_mul (Fin x) (Fin y) = Fin (x * y)"
| "num_mul (Fin x) PInf = (if x = 0 then NaN else if 0 < x then PInf else NInf)"
| "num_mul (Fin x) NInf = (if x = 0 then NaN else if 0 < x then NInf else PInf)"
| "num_mul PInf (Fin y) = (if y = 0 then NaN else if 0 < y then PInf else NInf)"
| "num_mul NInf (Fin y) = (if y = 0 then NaN else if 0 < y then NInf else PInf)"
| "num_mul PInf PInf = PInf"
| "num_mul NInf NInf = PInf"
| "num_mul PInf NInf = NInf"
| "num_mul NInf PInf = NInf"

fun num_div :: "number \<Rightarrow> number \<Rightarrow> number" where
  "num_div NaN _ = NaN"
| "num_div _ NaN = NaN"
| "num_div (Fin x) (Fin y) =
     (if y = 0 then (if x = 0 then NaN else if 0 < x then PInf else NInf)
      else Fin (x / y))"
| "num_div (Fin x) _ = Fin 0"
| "num_div PInf (Fin y) = (if 0 \<le> y then PInf else NInf)"
| "num_div NInf (Fin y) = (if 0 \<le> y then NInf else PInf)"
| "num_div _ _ = NaN"

text \<open>
  \<^verbatim>\<open>Math.pow\<close> is only ever called with a whole number of months as its exponent, so
  the exponent is an integer here.
\<close>

fun num_pow :: "number \<Rightarrow> int \<Rightarrow> number" where
  "num_pow NaN e = (if e = 0 then Fin 1 else NaN)"
| "num_pow (Fin x) e =
     (if 0 \<le> e then Fin (x ^ nat e)
      else if x = 0 then PInf
      else Fin (1 / x ^ nat (- e)))"
| "num_pow PInf e = (if e = 0 then Fin 1 else if 0 < e then PInf else Fin 0)"
| "num_pow NInf e =
     (if e = 0 then Fin 1
      else if e < 0 then Fin 0
      else if odd e then NInf else PInf)"

fun num_lt :: "number \<Rightarrow> number \<Rightarrow> bool" where
  "num_lt NaN _ = False"
| "num_lt _ NaN = False"
| "num_lt (Fin x) (Fin y) = (x < y)"
| "num_lt _ NInf = False"
| "num_lt NInf _ = True"
| "num_lt PInf _ = False"
| "num_lt _ PInf = True"

fun num_le :: "number \<Rightarrow> number \<Rightarrow> bool" where
  "num_le NaN _ = False"
| "num_le _ NaN = False"
| "num_le (Fin x) (Fin y) = (x \<le> y)"
| "num_le NInf _ = True"
| "num_le _ PInf = True"
| "num_le _ _ = False"

definition num_gt :: "number \<Rightarrow> number \<Rightarrow> bool" where
  "num_gt a b = num_lt b a"

definition num_ge :: "number \<Rightarrow> number \<Rightarrow> bool" where
  "num_ge a b = num_le b a"

section \<open>The calculation\<close>

text \<open>
  The entries of \<^verbatim>\<open>yearlyBreakdown\<close> and the \<^verbatim>\<open>CalculationResult\<close> interface.
  Both have fields \<open>totalInvested\<close> and \<open>initialCapital\<close>; the entry's are written
  \<open>YearRecord.totalInvested\<close> and \<open>YearRecord.initialCapital\<close>.
\<close>

record YearRecord =
  year :: int
  totalValue :: number
  totalInvested :: number
  initialCapital :: number
  profit :: number

record CalculationResult =
  monthlyInvestment :: number
  totalInvested :: number
  initialCapital :: number
  totalProfit :: number
  yearlyBreakdown :: "YearRecord list"

text \<open>
  The body of the loop \<^verbatim>\<open>for (let year = 1; year <= years; year++)\<close>: the entry pushed
  for one year.
\<close>

definition yearEntry :: "number \<Rightarrow> number \<Rightarrow> number \<Rightarrow> int \<Rightarrow> YearRecord" where
  "yearEntry = (\<lambda>monthlyRate monthlyInvestment initialCapital year.
      let monthsElapsed = year * 12;
          investedSoFar = num_mul monthlyInvestment (Fin (of_int monthsElapsed));
          futureValueOfInitialAtYear =
            num_mul initialCapital (num_pow (num_add (Fin 1) monthlyRate) monthsElapsed);
          futureValueOfMonthlyAtYear =
            num_mul monthlyInvestment
              (num_div (num_sub (num_pow (num_add (Fin 1) monthlyRate) monthsElapsed) (Fin 1))
                 monthlyRate);
          totalValue = num_add futureValueOfInitialAtYear futureValueOfMonthlyAtYear;
          profit = num_sub (num_sub totalValue investedSoFar) initialCapital
      in \<lparr>year = year,
          totalValue = totalValue,
          YearRecord.totalInvested = investedSoFar,
          YearRecord.initialCapital = initialCapital,
          profit = profit\<rparr>)"

text \<open>
  The loop itself, from the current \<open>year\<close> up to \<open>years\<close>, pushing onto the array built
  so far. The horizon \<open>years\<close> is a whole number, as in the data model.
\<close>

function breakdownLoop ::
  "number \<Rightarrow> number \<Rightarrow> number \<Rightarrow> int \<Rightarrow> int \<Rightarrow> YearRecord list \<Rightarrow> YearRecord list" where
  "breakdownLoop monthlyRate monthlyInvestment' initialCapital' years year' yearlyBreakdown' =
     (if year' \<le> years
      then breakdownLoop monthlyRate monthlyInvestment' initialCapital' years (year' + 1)
             (yearlyBreakdown' @ [yearEntry monthlyRate monthlyInvestment' initialCapital' year'])
      else yearlyBreakdown')"
  by pat_completeness auto
termination
  by (relation "measure (\<lambda>(r, m, c, years, year, acc). nat (years + 1 - year))") auto

declare breakdownLoop.simps [simp del]

text \<open>
  \<^verbatim>\<open>calculateInvestment\<close> reads the four inputs held by the component and stores a new
  \<^verbatim>\<open>result\<close>: \<open>None\<close> is \<^verbatim>\<open>setResult(null)\<close>, \<open>Some res\<close> is \<^verbatim>\<open>setResult(res)\<close>.
\<close>

definition calculateInvestment ::
  "int \<Rightarrow> number \<Rightarrow> number \<Rightarrow> number \<Rightarrow> CalculationResult option" where
  "calculateInvestment = (\<lambda>years targetAmount annualReturn initialCapital.
      if years \<le> 0 \<or> num_le targetAmount (Fin 0) \<or> num_lt annualReturn (Fin 0)
         \<or> num_lt initialCapital (Fin 0)
      then None
      else
        let monthlyRate = num_div (num_div annualReturn (Fin 100)) (Fin 12);
            totalMonths = years * 12;
            futureValueOfInitial =
              num_mul initialCapital (num_pow (num_add (Fin 1) monthlyRate) totalMonths);
            remainingAmount = num_sub targetAmount futureValueOfInitial;
            monthlyInvestment =
              (if num_gt remainingAmount (Fin 0)
               then num_div remainingAmount
                      (num_div (num_sub (num_pow (num_add (Fin 1) monthlyRate) totalMonths) (Fin 1))
                         monthlyRate)
               else Fin 0);
            totalInvested = num_mul monthlyInvestment (Fin (of_int totalMonths));
            totalProfit = num_sub (num_sub targetAmount totalInvested) initialCapital;
            yearlyBreakdown = breakdownLoop monthlyRate monthlyInvestment initialCapital years 1 []
        in Some \<lparr>monthlyInvestment = monthlyInvestment,
                 totalInvested = totalInvested,
                 initialCapital = initialCapital,
                 totalProfit = totalProfit,
                 yearlyBreakdown = yearlyBreakdown\<rparr>)"

section \<open>Names for the intermediate values\<close>

text \<open>
  The values that \<^verbatim>\<open>calculateInvestment\<close> binds to \<^verbatim>\<open>monthlyRate\<close> and
  \<^verbatim>\<open>monthlyInvestment\<close>, and the quotient \<^verbatim>\<open>(Math.pow(1 + r, m) - 1) / r\<close> that occurs in
  the payment and in every entry, as functions of the inputs. They are the source's own
  expressions, named so that the statements below can refer to them.
\<close>

definition monthlyRateOf :: "number \<Rightarrow> number" where
  "monthlyRateOf annualReturn = num_div (num_div annualReturn (Fin 100)) (Fin 12)"

definition annuityFactor :: "number \<Rightarrow> int \<Rightarrow> number" where
  "annuityFactor monthlyRate months =
     num_div (num_sub (num_pow (num_add (Fin 1) monthlyRate) months) (Fin 1)) monthlyRate"

definition monthlyInvestmentOf :: "int \<Rightarrow> number \<Rightarrow> number \<Rightarrow> number \<Rightarrow> number" where
  "monthlyInvestmentOf years targetAmount annualReturn c =
     (let remainingAmount =
            num_sub targetAmount
              (num_mul c (num_pow (num_add (Fin 1) (monthlyRateOf annualReturn)) (years * 12)))
      in if num_gt remainingAmount (Fin 0)
         then num_div remainingAmount (annuityFactor (monthlyRateOf annualReturn) (years * 12))
         else Fin 0)"

section \<open>The loop as a list of entries\<close>

lemma breakdownLoop_upto:
  "breakdownLoop r m c n y acc = acc @ map (yearEntry r m c) [y..n]"
proof (induction r m c n y acc rule: breakdownLoop.induct)
  case (1 r m c n y acc)
  show ?case
  proof (cases "y \<le> n")
    case True
    then have "[y..n] = y # [y + 1..n]"
      by (simp add: upto_rec1)
    with True 1 show ?thesis
      by (subst breakdownLoop.simps) simp
  next
    case False
    then show ?thesis
      by (subst breakdownLoop.simps) simp
  qed
qed

lemma upto_from_1_nth:
  assumes "1 \<le> k" "k \<le> n"
  shows "[1..n] ! nat (k - 1) = k"
proof -
  have "[1..n] ! nat (k - 1) = 1 + int (nat (k - 1))"
    using assms by (intro nth_upto) simp
  with assms show ?thesis by simp
qed

section \<open>The result in terms of the intermediate values\<close>

lemma calculateInvestment_Some:
  assumes "\<not> (n \<le> 0 \<or> num_le t (Fin 0) \<or> num_lt a (Fin 0) \<or> num_lt c (Fin 0))"
  shows "calculateInvestment n t a c =
     Some \<lparr>monthlyInvestment = monthlyInvestmentOf n t a c,
           totalInvested = num_mul (monthlyInvestmentOf n t a c) (Fin (of_int (n * 12))),
           initialCapital = c,
           totalProfit =
             num_sub (num_sub t (num_mul (monthlyInvestmentOf n t a c) (Fin (of_int (n * 12))))) c,
           yearlyBreakdown =
             map (yearEntry (monthlyRateOf a) (monthlyInvestmentOf n t a c) c) [1..n]\<rparr>"
  using assms
  by (simp add: calculateInvestment_def Let_def monthlyInvestmentOf_def monthlyRateOf_def
      annuityFactor_def breakdownLoop_upto)

lemma calculateInvestment_Fin:
  assumes "0 < n" "0 < t" "0 \<le> a" "0 \<le> c"
  shows "calculateInvestment n (Fin t) (Fin a) (Fin c) =
     Some \<lparr>monthlyInvestment = monthlyInvestmentOf n (Fin t) (Fin a) (Fin c),
           totalInvested =
             num_mul (monthlyInvestmentOf n (Fin t) (Fin a) (Fin c)) (Fin (of_int (n * 12))),
           initialCapital = Fin c,
           totalProfit =
             num_sub (num_sub (Fin t)
               (num_mul (monthlyInvestmentOf n (Fin t) (Fin a) (Fin c)) (Fin (of_int (n * 12)))))
               (Fin c),
           yearlyBreakdown =
             map (yearEntry (monthlyRateOf (Fin a)) (monthlyInvestmentOf n (Fin t) (Fin a) (Fin c))
                    (Fin c)) [1..n]\<rparr>"
  using assms by (intro calculateInvestment_Some) simp

lemma yearEntry_year: "year (yearEntry r m c k) = k"
  by (simp add: yearEntry_def Let_def)

lemma yearEntry_totalValue:
  "totalValue (yearEntry r m c k) =
     num_add (num_mul c (num_pow (num_add (Fin 1) r) (k * 12))) (num_mul m (annuityFactor r (k * 12)))"
  by (simp add: yearEntry_def Let_def annuityFactor_def)

lemma yearEntry_totalInvested:
  "YearRecord.totalInvested (yearEntry r m c k) = num_mul m (Fin (of_int (k * 12)))"
  by (simp add: yearEntry_def Let_def)

lemma yearEntry_initialCapital: "YearRecord.initialCapital (yearEntry r m c k) = c"
  by (simp add: yearEntry_def Let_def)

lemma yearEntry_profit:
  "profit (yearEntry r m c k) =
     num_sub (num_sub (totalValue (yearEntry r m c k))
                (YearRecord.totalInvested (yearEntry r m c k)))
       (YearRecord.initialCapital (yearEntry r m c k))"
  by (simp add: yearEntry_def Let_def)

lemma monthlyRateOf_Fin: "monthlyRateOf (Fin a) = Fin (a / 100 / 12)"
  by (simp add: monthlyRateOf_def)

lemma annuityFactor_zero: "annuityFactor (Fin 0) m = NaN"
  by (simp add: annuityFactor_def num_sub_def)

lemma annuityFactor_Fin:
  "r \<noteq> 0 \<Longrightarrow> 0 \<le> m \<Longrightarrow> annuityFactor (Fin r) m = Fin (((1 + r) ^ nat m - 1) / r)"
  by (simp add: annuityFactor_def num_sub_def)

lemma map_upto_from_1_nth:
  assumes "1 \<le> k" "k \<le> n"
  shows "map f [1..n] ! nat (k - 1) = f k"
proof -
  have "nat (k - 1) < length [1..n]" using assms by simp
  then have "map f [1..n] ! nat (k - 1) = f ([1..n] ! nat (k - 1))"
    by (rule nth_map)
  with assms show ?thesis by (simp add: upto_from_1_nth)
qed

section \<open>Validity\<close>

text \<open>
  Claim C3: no result is produced (\<open>setResult(null)\<close>, here \<open>None\<close>) if and only if
  \<open>years \<le> 0\<close> or \<open>targetAmount \<le> 0\<close> or \<open>annualReturn < 0\<close> or \<open>initialCapital < 0\<close>,
  the comparisons being JavaScript's; every other input produces a result. The value of
  the function is the only state written, so on the invalid path nothing but the cleared
  result is produced.
\<close>

theorem invalid_iff:
  "(calculateInvestment n t a c = None) =
     (n \<le> 0 \<or> num_le t (Fin 0) \<or> num_lt a (Fin 0) \<or> num_lt c (Fin 0))"
  by (simp add: calculateInvestment_def Let_def)

theorem invalid_iff_witness:
  "calculateInvestment 0 (Fin 1000) (Fin 10) (Fin 100) = None
   \<and> calculateInvestment 20 (Fin 0) (Fin 10) (Fin 100) = None
   \<and> calculateInvestment 20 (Fin 1000) (Fin (- 1)) (Fin 100) = None
   \<and> calculateInvestment 20 (Fin 1000) (Fin 10) (Fin (- 1)) = None
   \<and> calculateInvestment 20 (Fin 1000) (Fin 10) (Fin 100) \<noteq> None"
  using invalid_iff [of 0 "Fin 1000" "Fin 10" "Fin 100"]
    invalid_iff [of 20 "Fin 0" "Fin 10" "Fin 100"]
    invalid_iff [of 20 "Fin 1000" "Fin (- 1)" "Fin 100"]
    invalid_iff [of 20 "Fin 1000" "Fin 10" "Fin (- 1)"]
    invalid_iff [of 20 "Fin 1000" "Fin 10" "Fin 100"]
  by simp

section \<open>The shape of the result\<close>

text \<open>
  Claim C8: for every valid input, \<open>yearlyBreakdown\<close> has exactly \<open>years\<close> entries, their
  \<open>year\<close> fields are \<open>1, \<dots>, years\<close> in this order, and the \<open>k\<close>-th entry has
  \<open>totalInvested = monthlyInvestment * (k * 12)\<close> and the input's \<open>initialCapital\<close>.
\<close>

theorem breakdown_entries:
  assumes "0 < n" "0 < t" "0 \<le> a" "0 \<le> c"
  shows "\<exists>res. calculateInvestment n (Fin t) (Fin a) (Fin c) = Some res
           \<and> length (yearlyBreakdown res) = nat n
           \<and> map year (yearlyBreakdown res) = [1..n]
           \<and> (\<forall>k. 1 \<le> k \<and> k \<le> n \<longrightarrow>
                 year (yearlyBreakdown res ! nat (k - 1)) = k
               \<and> YearRecord.totalInvested (yearlyBreakdown res ! nat (k - 1)) =
                   num_mul (monthlyInvestment res) (Fin (of_int (k * 12)))
               \<and> YearRecord.initialCapital (yearlyBreakdown res ! nat (k - 1)) = Fin c)"
proof -
  let ?m = "monthlyInvestmentOf n (Fin t) (Fin a) (Fin c)"
  let ?e = "yearEntry (monthlyRateOf (Fin a)) ?m (Fin c)"
  have nth: "map ?e [1..n] ! nat (k - 1) = ?e k" if "1 \<le> k" "k \<le> n" for k
  proof -
    have "nat (k - 1) < length [1..n]" using that by simp
    then have "map ?e [1..n] ! nat (k - 1) = ?e ([1..n] ! nat (k - 1))"
      by (rule nth_map)
    with that show ?thesis by (simp add: upto_from_1_nth)
  qed
  have years: "map year (map ?e [1..n]) = [1..n]"
    by (simp add: comp_def yearEntry_year)
  define res where "res = \<lparr>monthlyInvestment = ?m,
           totalInvested = num_mul ?m (Fin (of_int (n * 12))),
           initialCapital = Fin c,
           totalProfit = num_sub (num_sub (Fin t) (num_mul ?m (Fin (of_int (n * 12))))) (Fin c),
           yearlyBreakdown = map ?e [1..n]\<rparr>"
  have r: "calculateInvestment n (Fin t) (Fin a) (Fin c) = Some res"
    unfolding res_def by (rule calculateInvestment_Fin [OF assms])
  have yb: "yearlyBreakdown res = map ?e [1..n]" and mi: "monthlyInvestment res = ?m"
    by (simp_all add: res_def)
  have len: "length (yearlyBreakdown res) = nat n"
    by (simp add: yb)
  have ys: "map year (yearlyBreakdown res) = [1..n]"
    unfolding yb by (rule years)
  have ent: "year (yearlyBreakdown res ! nat (k - 1)) = k
               \<and> YearRecord.totalInvested (yearlyBreakdown res ! nat (k - 1)) =
                   num_mul (monthlyInvestment res) (Fin (of_int (k * 12)))
               \<and> YearRecord.initialCapital (yearlyBreakdown res ! nat (k - 1)) = Fin c"
    if "1 \<le> k \<and> k \<le> n" for k
    using that
    by (simp add: yb mi nth yearEntry_year yearEntry_totalInvested yearEntry_initialCapital)
  from r len ys ent show ?thesis by blast
qed

theorem breakdown_entries_witness:
  "(0::int) < 2 \<and> (0::real) < 1000 \<and> (0::real) \<le> 12 \<and> (0::real) \<le> 100
   \<and> (\<exists>res. calculateInvestment 2 (Fin 1000) (Fin 12) (Fin 100) = Some res
         \<and> length (yearlyBreakdown res) = 2
         \<and> year (yearlyBreakdown res ! 1) = 2
         \<and> YearRecord.totalInvested (yearlyBreakdown res ! 1) =
               num_mul (monthlyInvestment res) (Fin 24)
         \<and> YearRecord.initialCapital (yearlyBreakdown res ! 1) = Fin 100)"
proof -
  obtain res where r: "calculateInvestment 2 (Fin 1000) (Fin 12) (Fin 100) = Some res"
    and len: "length (yearlyBreakdown res) = nat 2"
    and ent: "\<forall>k. 1 \<le> k \<and> k \<le> 2 \<longrightarrow>
                 year (yearlyBreakdown res ! nat (k - 1)) = k
               \<and> YearRecord.totalInvested (yearlyBreakdown res ! nat (k - 1)) =
                   num_mul (monthlyInvestment res) (Fin (of_int (k * 12)))
               \<and> YearRecord.initialCapital (yearlyBreakdown res ! nat (k - 1)) = Fin 100"
    using breakdown_entries [of 2 1000 12 100] by auto
  from ent [rule_format, of 2] have
    "year (yearlyBreakdown res ! 1) = 2
     \<and> YearRecord.totalInvested (yearlyBreakdown res ! 1) = num_mul (monthlyInvestment res) (Fin 24)
     \<and> YearRecord.initialCapital (yearlyBreakdown res ! 1) = Fin 100"
    by simp
  with r len show ?thesis by auto
qed

text \<open>
  Claim C9: for every valid input, every entry of \<open>yearlyBreakdown\<close> satisfies
  \<open>profit = totalValue - totalInvested - initialCapital\<close>, as an identity of the computed
  values.
\<close>

theorem profit_identity:
  assumes "0 < n" "0 < t" "0 \<le> a" "0 \<le> c"
  shows "\<exists>res. calculateInvestment n (Fin t) (Fin a) (Fin c) = Some res
           \<and> (\<forall>e \<in> set (yearlyBreakdown res).
                 profit e =
                   num_sub (num_sub (totalValue e) (YearRecord.totalInvested e))
                     (YearRecord.initialCapital e))"
  unfolding calculateInvestment_Fin [OF assms]
  by (intro exI conjI ballI, rule refl) (auto simp: yearEntry_profit)

theorem profit_identity_witness:
  "(0::int) < 1 \<and> (0::real) < 1200 \<and> (0::real) \<le> 12 \<and> (0::real) \<le> 0
   \<and> (\<exists>res. calculateInvestment 1 (Fin 1200) (Fin 12) (Fin 0) = Some res
         \<and> yearlyBreakdown res \<noteq> []
         \<and> profit (hd (yearlyBreakdown res)) =
               num_sub (num_sub (totalValue (hd (yearlyBreakdown res)))
                          (YearRecord.totalInvested (hd (yearlyBreakdown res))))
                 (YearRecord.initialCapital (hd (yearlyBreakdown res))))"
proof -
  obtain res where r: "calculateInvestment 1 (Fin 1200) (Fin 12) (Fin 0) = Some res"
    and p: "\<forall>e \<in> set (yearlyBreakdown res).
                 profit e =
                   num_sub (num_sub (totalValue e) (YearRecord.totalInvested e))
                     (YearRecord.initialCapital e)"
    using profit_identity [of 1 1200 12 0] by auto
  have "yearlyBreakdown res = [yearEntry (monthlyRateOf (Fin 12))
          (monthlyInvestmentOf 1 (Fin 1200) (Fin 12) (Fin 0)) (Fin 0) 1]"
    using r by (auto simp: calculateInvestment_Fin upto_rec1 [of 1 1])
  then have ne: "yearlyBreakdown res \<noteq> []" by simp
  then have "hd (yearlyBreakdown res) \<in> set (yearlyBreakdown res)" by simp
  with p r ne show ?thesis by auto
qed

section \<open>A zero rate\<close>

text \<open>
  With \<open>annualReturn = 0\<close> the monthly rate is \<open>0\<close>, the quotient
  \<open>(Math.pow(1 + 0, m) - 1) / 0\<close> is \<open>0 / 0\<close>, and NaN spreads from there: into the payment
  when a payment is due, and into every entry's \<open>totalValue\<close> whether one is due or not.
\<close>

lemma zero_rate_payment:
  assumes "0 < n" "0 < t" "0 \<le> c" "0 < t - c"
  shows "monthlyInvestmentOf n (Fin t) (Fin 0) (Fin c) = NaN"
  using assms
  by (simp add: monthlyInvestmentOf_def monthlyRateOf_Fin annuityFactor_zero num_sub_def num_gt_def)

lemma num_mul_NaN_right: "num_mul m NaN = NaN"
  by (cases m) simp_all

lemma num_add_NaN_right: "num_add v NaN = NaN"
  by (cases v) simp_all

lemma zero_rate_entry_totalValue: "totalValue (yearEntry (Fin 0) m c k) = NaN"
  by (simp add: yearEntry_totalValue annuityFactor_zero num_mul_NaN_right num_add_NaN_right)

lemma zero_rate_breakdown_NaN:
  assumes "0 < n" "0 < t" "0 \<le> c"
  shows "\<exists>res. calculateInvestment n (Fin t) (Fin 0) (Fin c) = Some res
           \<and> (\<forall>e \<in> set (yearlyBreakdown res). totalValue e = NaN)"
proof -
  have "0 \<le> (0::real)" by simp
  note eq = calculateInvestment_Fin [OF assms(1,2) this assms(3)]
  show ?thesis
    unfolding eq by (auto simp: monthlyRateOf_Fin zero_rate_entry_totalValue)
qed

text \<open>
  Claim C1 says that at \<open>annualReturnPercent = 0\<close> with \<open>targetAmount - initialCapital > 0\<close>
  the quotient \<open>((1 + r) ^ n - 1) / r\<close> is taken as its limit \<open>totalMonths\<close>, so that
  \<open>monthlyInvestment = (targetAmount - initialCapital) / totalMonths\<close>. The code has no
  branch for a zero rate: it divides \<open>0\<close> by \<open>0\<close>. For one year, a target of 1200 and
  no initial capital the claim gives 100; the code gives NaN.
\<close>

theorem zero_rate_monthlyInvestment_NaN:
  "map_option monthlyInvestment (calculateInvestment 1 (Fin 1200) (Fin 0) (Fin 0)) = Some NaN"
  by (simp add: calculateInvestment_Some monthlyInvestmentOf_def monthlyRateOf_Fin
      annuityFactor_zero num_sub_def num_gt_def)

text \<open>
  Claim C4 says that for every valid input with \<open>r = annualReturnPercent / 100 / 12\<close> and
  \<open>n = years * 12\<close>, whenever \<open>targetAmount - initialCapital * (1 + r) ^ n > 0\<close> the result
  has \<open>monthlyInvestment = (targetAmount - initialCapital * (1 + r) ^ n) / (((1 + r) ^ n - 1) / r)\<close>,
  \<open>totalInvested = monthlyInvestment * n\<close> and
  \<open>totalProfit = targetAmount - totalInvested - initialCapital\<close>. At a rate of \<open>0\<close>, one
  year, a target of 2400 and a capital of 1200, the remaining amount is 1200 and the
  quotient is to be taken as its limit \<open>totalMonths = 12\<close>: the claim gives a payment of
  100, \<open>totalInvested = 1200\<close> and \<open>totalProfit = 0\<close>. The code divides \<open>0\<close> by \<open>0\<close>
  and all three are NaN.
\<close>

theorem zero_rate_payment_formula_NaN:
  "map_option monthlyInvestment (calculateInvestment 1 (Fin 2400) (Fin 0) (Fin 1200)) = Some NaN
   \<and> map_option totalInvested (calculateInvestment 1 (Fin 2400) (Fin 0) (Fin 1200)) = Some NaN
   \<and> map_option totalProfit (calculateInvestment 1 (Fin 2400) (Fin 0) (Fin 1200)) = Some NaN"
proof -
  have "monthlyInvestmentOf 1 (Fin 2400) (Fin 0) (Fin 1200) = NaN"
    by (intro zero_rate_payment) simp_all
  then show ?thesis
    by (simp add: calculateInvestment_Fin num_sub_def)
qed

section \<open>The quotient in exact arithmetic\<close>

text \<open>
  For a rate \<open>r \<noteq> 0\<close> the quotient \<open>((1 + r) ^ m - 1) / r\<close> is the geometric sum
  \<open>\<Sum>i<m. (1 + r) ^ i\<close>; for \<open>r > 0\<close> it is at least \<open>m\<close>, grows with \<open>m\<close> and grows
  with \<open>r\<close>.
\<close>

lemma factor_sum:
  fixes r :: real
  assumes "r \<noteq> 0"
  shows "((1 + r) ^ m - 1) / r = (\<Sum>i<m. (1 + r) ^ i)"
  using assms geometric_sum [of "1 + r" m] by simp

lemma factor_ge_months:
  fixes r :: real
  assumes "0 < r"
  shows "real m \<le> ((1 + r) ^ m - 1) / r"
proof -
  have "(\<Sum>i<m. (1::real)) \<le> (\<Sum>i<m. (1 + r) ^ i)"
    using assms by (intro sum_mono one_le_power) simp
  with assms show ?thesis by (simp add: factor_sum)
qed

lemma factor_pos:
  fixes r :: real
  assumes "0 < r" "0 < m"
  shows "0 < ((1 + r) ^ m - 1) / r"
proof -
  from assms have "0 < real m" by simp
  also have "\<dots> \<le> ((1 + r) ^ m - 1) / r" using assms(1) by (rule factor_ge_months)
  finally show ?thesis .
qed

lemma factor_mono_rate:
  fixes r1 r2 :: real
  assumes "0 < r1" "r1 \<le> r2"
  shows "((1 + r1) ^ m - 1) / r1 \<le> ((1 + r2) ^ m - 1) / r2"
proof -
  have "(\<Sum>i<m. (1 + r1) ^ i) \<le> (\<Sum>i<m. (1 + r2) ^ i)"
    using assms by (intro sum_mono power_mono) simp_all
  with assms show ?thesis by (simp add: factor_sum)
qed

lemma factor_strict_mono_months:
  fixes r :: real
  assumes "0 < r" "m1 < m2"
  shows "((1 + r) ^ m1 - 1) / r < ((1 + r) ^ m2 - 1) / r"
proof -
  from assms have "(1 + r) ^ m1 < (1 + r) ^ m2"
    by (intro power_strict_increasing) simp_all
  with assms(1) show ?thesis by (simp add: divide_strict_right_mono)
qed

lemma payment_real_nonneg:
  fixes r :: real
  assumes "0 < r" "0 < N"
  shows "0 \<le> (if 0 < rem then rem / (((1 + r) ^ N - 1) / r) else 0)"
proof (cases "0 < rem")
  case True
  then have "0 \<le> rem / (((1 + r) ^ N - 1) / r)"
    using factor_pos [OF assms] by (intro divide_nonneg_pos) simp_all
  with True show ?thesis by (simp only: if_True)
next
  case False
  then show ?thesis by (simp only: if_False)
qed

lemma entry_totalValue_nonneg:
  fixes r :: real
  assumes "0 < r" "0 \<le> p" "0 \<le> c"
  shows "0 \<le> c * (1 + r) ^ K + p * (((1 + r) ^ K - 1) / r)"
proof -
  have "0 \<le> ((1 + r) ^ K - 1) / r"
    using factor_ge_months [OF assms(1), of K] by simp
  with assms show ?thesis by simp
qed

lemma entry_profit_nonneg:
  fixes r :: real
  assumes "0 < r" "0 \<le> p" "0 \<le> c"
  shows "0 \<le> c * (1 + r) ^ K + p * (((1 + r) ^ K - 1) / r) - p * real K - c"
proof -
  have "1 \<le> (1 + r) ^ K" using assms(1) by (intro one_le_power) simp
  with assms(3) have "c * 1 \<le> c * (1 + r) ^ K" by (intro mult_left_mono)
  moreover have "p * real K \<le> p * (((1 + r) ^ K - 1) / r)"
    using assms(2) factor_ge_months [OF assms(1), of K] by (intro mult_left_mono)
  ultimately show ?thesis by simp
qed

lemma totalProfit_real_sign:
  fixes r t c :: real
  assumes "0 < r" "0 < N" "0 \<le> c"
  defines "F \<equiv> ((1 + r) ^ N - 1) / r"
  defines "p \<equiv> (if 0 < t - c * (1 + r) ^ N then (t - c * (1 + r) ^ N) / F else 0)"
  shows "(0 \<le> t - p * real N - c) = (c \<le> t)"
proof (cases "0 < t - c * (1 + r) ^ N")
  case True
  have F: "0 < F" unfolding F_def using assms(1,2) by (rule factor_pos)
  have p: "p = (t - c * (1 + r) ^ N) / F" using True by (simp add: p_def)
  then have pF: "p * F = t - c * (1 + r) ^ N" using F by simp
  have p0: "0 \<le> p" using True F by (simp add: p)
  have "0 \<le> c * (1 + r) ^ N + p * F - p * real N - c"
    unfolding F_def using assms(1) p0 assms(3) by (rule entry_profit_nonneg)
  then have 1: "0 \<le> t - p * real N - c" by (simp add: pF)
  have "1 \<le> (1 + r) ^ N" using assms(1) by (intro one_le_power) simp
  with assms(3) have "c * 1 \<le> c * (1 + r) ^ N" by (intro mult_left_mono)
  with True have "c \<le> t" by simp
  with 1 show ?thesis by simp
next
  case False
  then have "p = 0" by (simp add: p_def)
  then show ?thesis by simp
qed

lemma entry_totalValue_strict_mono:
  fixes r :: real
  assumes "0 < r" "0 \<le> p" "0 \<le> c" "0 < p \<or> 0 < c" "J < K"
  shows "c * (1 + r) ^ J + p * (((1 + r) ^ J - 1) / r)
         < c * (1 + r) ^ K + p * (((1 + r) ^ K - 1) / r)"
proof -
  have pw: "(1 + r) ^ J < (1 + r) ^ K"
    using assms(1,5) by (intro power_strict_increasing) simp_all
  have fc: "((1 + r) ^ J - 1) / r < ((1 + r) ^ K - 1) / r"
    using assms(1,5) by (rule factor_strict_mono_months)
  from assms(4) show ?thesis
  proof
    assume "0 < p"
    then have "p * (((1 + r) ^ J - 1) / r) < p * (((1 + r) ^ K - 1) / r)"
      using fc by (intro mult_strict_left_mono)
    moreover have "c * (1 + r) ^ J \<le> c * (1 + r) ^ K"
      using pw assms(3) by (intro mult_left_mono) simp_all
    ultimately show ?thesis by (rule add_le_less_mono [rotated])
  next
    assume "0 < c"
    then have "c * (1 + r) ^ J < c * (1 + r) ^ K"
      using pw by (intro mult_strict_left_mono)
    moreover have "p * (((1 + r) ^ J - 1) / r) \<le> p * (((1 + r) ^ K - 1) / r)"
      using fc assms(2) by (intro mult_left_mono) simp_all
    ultimately show ?thesis by (rule add_less_le_mono)
  qed
qed

lemma payment_real_antimono:
  fixes r1 r2 :: real
  assumes "0 < r1" "r1 \<le> r2" "0 < N" "0 \<le> c"
  shows "(if 0 < t - c * (1 + r2) ^ N then (t - c * (1 + r2) ^ N) / (((1 + r2) ^ N - 1) / r2) else 0)
       \<le> (if 0 < t - c * (1 + r1) ^ N then (t - c * (1 + r1) ^ N) / (((1 + r1) ^ N - 1) / r1) else 0)"
proof (cases "0 < t - c * (1 + r2) ^ N")
  case False
  with payment_real_nonneg [OF assms(1,3), of "t - c * (1 + r1) ^ N"] show ?thesis by simp
next
  case True
  have "(1 + r1) ^ N \<le> (1 + r2) ^ N" using assms(1,2) by (intro power_mono) simp_all
  with assms(4) have "c * (1 + r1) ^ N \<le> c * (1 + r2) ^ N" by (intro mult_left_mono)
  then have le: "t - c * (1 + r2) ^ N \<le> t - c * (1 + r1) ^ N" by simp
  with True have pos1: "0 < t - c * (1 + r1) ^ N" by simp
  have "(t - c * (1 + r2) ^ N) / (((1 + r2) ^ N - 1) / r2)
        \<le> (t - c * (1 + r1) ^ N) / (((1 + r1) ^ N - 1) / r1)"
  proof (rule frac_le)
    show "0 \<le> t - c * (1 + r1) ^ N" using pos1 by simp
    show "t - c * (1 + r2) ^ N \<le> t - c * (1 + r1) ^ N" by (rule le)
    show "0 < ((1 + r1) ^ N - 1) / r1" using assms(1,3) by (rule factor_pos)
    show "((1 + r1) ^ N - 1) / r1 \<le> ((1 + r2) ^ N - 1) / r2" using assms(1,2) by (rule factor_mono_rate)
  qed
  with True pos1 show ?thesis by simp
qed

lemma quotient_times_divisor:
  fixes F :: real
  assumes "F \<noteq> 0" "p = x / F"
  shows "p * F = x"
  using assms by simp

section \<open>Finite inputs and a positive rate\<close>

lemma remainingAmount_Fin:
  assumes "0 \<le> n"
  shows "num_sub (Fin t) (num_mul (Fin c) (num_pow (num_add (Fin 1) (monthlyRateOf (Fin a))) (n * 12)))
         = Fin (t - c * (1 + a / 100 / 12) ^ nat (n * 12))"
  using assms by (simp add: monthlyRateOf_Fin num_sub_def)

lemma monthlyInvestmentOf_sufficient:
  assumes "0 \<le> n" "t \<le> c * (1 + a / 100 / 12) ^ nat (n * 12)"
  shows "monthlyInvestmentOf n (Fin t) (Fin a) (Fin c) = Fin 0"
  using assms by (simp add: monthlyInvestmentOf_def remainingAmount_Fin num_gt_def)

lemma payment_Fin:
  assumes "F \<noteq> 0"
  shows "(if num_gt (Fin rem) (Fin 0) then num_div (Fin rem) (Fin F) else Fin 0) =
     Fin (if 0 < rem then rem / F else 0)"
  using assms by (simp add: num_gt_def)

lemma monthlyInvestmentOf_pos_rate:
  assumes "0 < n" "0 < a"
  shows "monthlyInvestmentOf n (Fin t) (Fin a) (Fin c) =
     Fin (if 0 < t - c * (1 + a / 100 / 12) ^ nat (n * 12)
          then (t - c * (1 + a / 100 / 12) ^ nat (n * 12))
               / (((1 + a / 100 / 12) ^ nat (n * 12) - 1) / (a / 100 / 12))
          else 0)"
proof -
  let ?r = "a / 100 / 12"
  let ?N = "nat (n * 12)"
  from assms have r: "0 < ?r" and N: "0 < ?N" by simp_all
  then have "0 < ((1 + ?r) ^ ?N - 1) / ?r" by (rule factor_pos)
  then have nz: "((1 + ?r) ^ ?N - 1) / ?r \<noteq> 0" by (rule less_imp_neq [THEN not_sym])
  have f: "annuityFactor (monthlyRateOf (Fin a)) (n * 12) = Fin (((1 + ?r) ^ ?N - 1) / ?r)"
    using r assms(1) by (simp add: monthlyRateOf_Fin annuityFactor_Fin)
  from assms(1) have n: "0 \<le> n" by simp
  show ?thesis
    unfolding monthlyInvestmentOf_def Let_def remainingAmount_Fin [OF n] f
    using nz by (rule payment_Fin)
qed

lemma yearEntry_totalValue_Fin:
  assumes "r \<noteq> 0" "0 \<le> k"
  shows "totalValue (yearEntry (Fin r) (Fin p) (Fin c) k) =
     Fin (c * (1 + r) ^ nat (k * 12) + p * (((1 + r) ^ nat (k * 12) - 1) / r))"
  using assms by (simp add: yearEntry_totalValue annuityFactor_Fin)

lemma yearEntry_totalInvested_Fin:
  "YearRecord.totalInvested (yearEntry r (Fin p) c k) = Fin (p * of_int (k * 12))"
  by (simp add: yearEntry_totalInvested)

lemma yearEntry_profit_Fin:
  assumes "r \<noteq> 0" "0 \<le> k"
  shows "profit (yearEntry (Fin r) (Fin p) (Fin c) k) =
     Fin (c * (1 + r) ^ nat (k * 12) + p * (((1 + r) ^ nat (k * 12) - 1) / r)
          - p * of_int (k * 12) - c)"
  using assms
  by (simp add: yearEntry_profit yearEntry_totalValue_Fin yearEntry_totalInvested_Fin
      yearEntry_initialCapital num_sub_def del: of_int_mult)

lemma entry_months:
  assumes "0 \<le> k"
  shows "real_of_int (k * 12) = real (nat (k * 12))"
  using assms by simp

lemma calculateInvestment_pos_rate:
  assumes "0 < n" "0 < t" "0 < a" "0 \<le> c"
    and r: "r = a / 100 / 12" and N: "N = nat (n * 12)"
    and p: "p = (if 0 < t - c * (1 + r) ^ N
                 then (t - c * (1 + r) ^ N) / (((1 + r) ^ N - 1) / r) else 0)"
  shows "calculateInvestment n (Fin t) (Fin a) (Fin c) =
     Some \<lparr>monthlyInvestment = Fin p,
           totalInvested = Fin (p * real N),
           initialCapital = Fin c,
           totalProfit = Fin (t - p * real N - c),
           yearlyBreakdown = map (yearEntry (Fin r) (Fin p) (Fin c)) [1..n]\<rparr>"
proof -
  have m: "monthlyInvestmentOf n (Fin t) (Fin a) (Fin c) = Fin p"
    unfolding p r N using assms(1,3) by (rule monthlyInvestmentOf_pos_rate)
  have rate: "monthlyRateOf (Fin a) = Fin r"
    unfolding r by (rule monthlyRateOf_Fin)
  have months: "real_of_int (n * 12) = real N"
    using assms(1) by (simp add: N)
  from assms(3) have a: "0 \<le> a" by simp
  show ?thesis
    unfolding calculateInvestment_Fin [OF assms(1,2) a assms(4)] m rate months
    by (simp add: num_sub_def)
qed

section \<open>Signs of the outputs\<close>





section \<open>Initial capital that suffices\<close>

text \<open>
  Claim C5 says that for every valid input whose compounded initial capital reaches the
  target, \<open>monthlyInvestment = 0\<close> and the last entry's \<open>totalValue\<close> is
  \<open>\<ge> targetAmount\<close>. At a rate of \<open>0\<close>, with capital and target both 1000, the payment is
  \<open>0\<close> but the last \<open>totalValue\<close> is \<open>1000 + 0 * (0 / 0)\<close>, which is NaN, and NaN is not
  \<open>\<ge> 1000\<close>.
\<close>

theorem zero_rate_sufficient_capital_NaN:
  "map_option monthlyInvestment (calculateInvestment 1 (Fin 1000) (Fin 0) (Fin 1000)) = Some (Fin 0)
   \<and> map_option (map totalValue \<circ> yearlyBreakdown)
        (calculateInvestment 1 (Fin 1000) (Fin 0) (Fin 1000)) = Some [NaN]
   \<and> \<not> num_ge NaN (Fin 1000)"
proof -
  have "monthlyInvestmentOf 1 (Fin 1000) (Fin 0) (Fin 1000) = Fin 0"
    by (intro monthlyInvestmentOf_sufficient) simp_all
  then show ?thesis
    by (simp add: calculateInvestment_Fin monthlyRateOf_Fin zero_rate_entry_totalValue
        upto_rec1 [of 1 1] num_ge_def)
qed

section \<open>The last entry and the target\<close>

text \<open>
  Claim C6 says that for every valid input the last entry's \<open>totalValue\<close> is within
  \<open>1e-6\<close> relative tolerance of the compounding-plus-annuity formula at
  \<open>monthsElapsed = totalMonths\<close>. At a rate of \<open>0\<close>, two years, a target of 1000 and a
  capital of 2000, the payment is \<open>0\<close> and the formula with its zero-rate limit gives
  \<open>2000 + 0 * 24 = 2000\<close>; the code's \<open>totalValue\<close> is NaN in both entries, within no
  tolerance of any value.
\<close>

theorem zero_rate_final_totalValue_NaN:
  "map_option monthlyInvestment (calculateInvestment 2 (Fin 1000) (Fin 0) (Fin 2000)) = Some (Fin 0)
   \<and> map_option (map totalValue \<circ> yearlyBreakdown)
        (calculateInvestment 2 (Fin 1000) (Fin 0) (Fin 2000)) = Some [NaN, NaN]"
proof -
  have "monthlyInvestmentOf 2 (Fin 1000) (Fin 0) (Fin 2000) = Fin 0"
    by (intro monthlyInvestmentOf_sufficient) simp_all
  moreover have "[1..2::int] = [1, 2]"
    by (simp add: upto_rec1 [of 1 2] upto_rec1 [of 2 2])
  ultimately show ?thesis
    by (simp add: calculateInvestment_Fin monthlyRateOf_Fin zero_rate_entry_totalValue)
qed

section \<open>The payment as a function of the rate\<close>

text \<open>
  Claim C7 says that for all rates \<open>0 \<le> r1 \<le> r2\<close> the payment at \<open>r2\<close> is \<open>\<le>\<close> the
  payment at \<open>r1\<close>. For two years, a target of 2400 and no initial capital, the payment
  at \<open>r1 = 0\<close> is NaN (it should be 100), and the payment at \<open>r2 = 12\<close> is not \<open>\<le>\<close> NaN.
\<close>

theorem zero_rate_breaks_monotonicity:
  "map_option monthlyInvestment (calculateInvestment 2 (Fin 2400) (Fin 0) (Fin 0)) = Some NaN
   \<and> map_option monthlyInvestment (calculateInvestment 2 (Fin 2400) (Fin 12) (Fin 0)) =
       Some (Fin (2400 / (((1 + 12 / 100 / 12) ^ 24 - 1) / (12 / 100 / 12))))
   \<and> \<not> num_le (Fin (2400 / (((1 + 12 / 100 / 12) ^ 24 - 1) / (12 / 100 / 12)))) NaN"
proof -
  have 0: "monthlyInvestmentOf 2 (Fin 2400) (Fin 0) (Fin 0) = NaN"
    by (intro zero_rate_payment) simp_all
  have 1: "monthlyInvestmentOf 2 (Fin 2400) (Fin 12) (Fin 0) =
      Fin (2400 / (((1 + 12 / 100 / 12) ^ 24 - 1) / (12 / 100 / 12)))"
    using monthlyInvestmentOf_pos_rate [where n = 2 and a = 12 and t = 2400 and c = 0] by simp
  show ?thesis
    by (simp add: calculateInvestment_Fin 0 1)
qed

section \<open>The formulas without rounding\<close>

text \<open>
  The lemmas of this section evaluate the formulas in exact arithmetic, for a positive
  rate. They say what the calculation denotes mathematically; they are not statements
  about the double-precision values that the program stores. In double precision a rate
  of \<open>1e-13\<close> makes \<open>1 + monthlyRate\<close> equal to \<open>1\<close>: the yearly values then stay at the
  initial capital, and with no initial capital the payment is infinite and the yearly
  values are NaN; at a rate of \<open>0.000002\<close> the cancellation in
  \<open>Math.pow(1 + r, n) - 1\<close> makes \<open>totalProfit\<close> slightly negative.
\<close>

text \<open>
  All outputs but \<open>totalProfit\<close> are \<open>\<ge> 0\<close>, and \<open>totalProfit \<ge> 0\<close> exactly when the
  initial capital does not exceed the target.
\<close>

lemma exact_nonneg_outputs_pos_rate:
  assumes "0 < n" "0 < t" "0 < a" "0 \<le> c"
  shows "\<exists>res. calculateInvestment n (Fin t) (Fin a) (Fin c) = Some res
           \<and> num_ge (monthlyInvestment res) (Fin 0)
           \<and> num_ge (totalInvested res) (Fin 0)
           \<and> (num_ge (totalProfit res) (Fin 0) = (c \<le> t))
           \<and> (\<forall>e \<in> set (yearlyBreakdown res).
                 num_ge (totalValue e) (Fin 0)
               \<and> num_ge (YearRecord.totalInvested e) (Fin 0)
               \<and> num_ge (profit e) (Fin 0))"
proof -
  define r where "r = a / 100 / 12"
  define N where "N = nat (n * 12)"
  define p where "p = (if 0 < t - c * (1 + r) ^ N
                       then (t - c * (1 + r) ^ N) / (((1 + r) ^ N - 1) / r) else 0)"
  define res where "res = \<lparr>monthlyInvestment = Fin p,
           totalInvested = Fin (p * real N),
           initialCapital = Fin c,
           totalProfit = Fin (t - p * real N - c),
           yearlyBreakdown = map (yearEntry (Fin r) (Fin p) (Fin c)) [1..n]\<rparr>"
  have r: "0 < r" and N: "0 < N"
    using assms(1,3) by (simp_all add: r_def N_def)
  have eq: "calculateInvestment n (Fin t) (Fin a) (Fin c) = Some res"
    unfolding res_def using assms r_def N_def p_def by (rule calculateInvestment_pos_rate)
  have p0: "0 \<le> p"
    unfolding p_def using r N by (rule payment_real_nonneg)
  have 1: "num_ge (monthlyInvestment res) (Fin 0)"
    using p0 by (simp add: res_def num_ge_def)
  have 2: "num_ge (totalInvested res) (Fin 0)"
    using p0 by (simp add: res_def num_ge_def)
  have "(0 \<le> t - p * real N - c) = (c \<le> t)"
    unfolding p_def using r N assms(4) by (rule totalProfit_real_sign)
  then have 3: "num_ge (totalProfit res) (Fin 0) = (c \<le> t)"
    by (simp add: res_def num_ge_def)
  have 4: "num_ge (totalValue e) (Fin 0)
           \<and> num_ge (YearRecord.totalInvested e) (Fin 0)
           \<and> num_ge (profit e) (Fin 0)" if "e \<in> set (yearlyBreakdown res)" for e
  proof -
    from that obtain k where k: "1 \<le> k" "k \<le> n" and e: "e = yearEntry (Fin r) (Fin p) (Fin c) k"
      by (auto simp: res_def)
    from k have k0: "0 \<le> k" by simp
    from r have rnz: "r \<noteq> 0" by simp
    have tv: "0 \<le> c * (1 + r) ^ nat (k * 12) + p * (((1 + r) ^ nat (k * 12) - 1) / r)"
      using r p0 assms(4) by (rule entry_totalValue_nonneg)
    have pr: "0 \<le> c * (1 + r) ^ nat (k * 12) + p * (((1 + r) ^ nat (k * 12) - 1) / r)
                 - p * real (nat (k * 12)) - c"
      using r p0 assms(4) by (rule entry_profit_nonneg)
    have inv: "0 \<le> p * real (nat (k * 12))"
      using p0 by simp
    show ?thesis
      unfolding e num_ge_def yearEntry_totalValue_Fin [OF rnz k0] yearEntry_totalInvested_Fin
        yearEntry_profit_Fin [OF rnz k0] entry_months [OF k0]
      using tv pr inv by simp
  qed
  from eq 1 2 3 4 show ?thesis by blast
qed

text \<open>The yearly values grow strictly.\<close>

lemma exact_totalValue_increasing:
  assumes "0 < n" "0 < t" "0 < a" "0 \<le> c"
    and "1 \<le> j" "j < k" "k \<le> n"
  shows "\<exists>res. calculateInvestment n (Fin t) (Fin a) (Fin c) = Some res
           \<and> num_lt (totalValue (yearlyBreakdown res ! nat (j - 1)))
                    (totalValue (yearlyBreakdown res ! nat (k - 1)))"
proof -
  define r where "r = a / 100 / 12"
  define N where "N = nat (n * 12)"
  define p where "p = (if 0 < t - c * (1 + r) ^ N
                       then (t - c * (1 + r) ^ N) / (((1 + r) ^ N - 1) / r) else 0)"
  define res where "res = \<lparr>monthlyInvestment = Fin p,
           totalInvested = Fin (p * real N),
           initialCapital = Fin c,
           totalProfit = Fin (t - p * real N - c),
           yearlyBreakdown = map (yearEntry (Fin r) (Fin p) (Fin c)) [1..n]\<rparr>"
  have r: "0 < r" and N: "0 < N"
    using assms(1,3) by (simp_all add: r_def N_def)
  from r have rnz: "r \<noteq> 0" by simp
  have eq: "calculateInvestment n (Fin t) (Fin a) (Fin c) = Some res"
    unfolding res_def using assms(1-4) r_def N_def p_def by (rule calculateInvestment_pos_rate)
  have p0: "0 \<le> p"
    unfolding p_def using r N by (rule payment_real_nonneg)
  have pc: "0 < p \<or> 0 < c"
  proof (cases "0 < c")
    case False
    with assms(4) have "c = 0" by simp
    with assms(2) have "p = t / (((1 + r) ^ N - 1) / r)" by (simp add: p_def)
    moreover have "0 < t / (((1 + r) ^ N - 1) / r)"
      using assms(2) factor_pos [OF r N] by (rule divide_pos_pos)
    ultimately show ?thesis by simp
  qed simp
  from assms(5-7) have j: "1 \<le> j" "j \<le> n" "0 \<le> j" and k: "1 \<le> k" "k \<le> n" "0 \<le> k"
    and jk: "nat (j * 12) < nat (k * 12)"
    by simp_all
  have ej: "yearlyBreakdown res ! nat (j - 1) = yearEntry (Fin r) (Fin p) (Fin c) j"
    using j(1,2) by (simp add: res_def map_upto_from_1_nth)
  have ek: "yearlyBreakdown res ! nat (k - 1) = yearEntry (Fin r) (Fin p) (Fin c) k"
    using k(1,2) by (simp add: res_def map_upto_from_1_nth)
  have "c * (1 + r) ^ nat (j * 12) + p * (((1 + r) ^ nat (j * 12) - 1) / r)
        < c * (1 + r) ^ nat (k * 12) + p * (((1 + r) ^ nat (k * 12) - 1) / r)"
    using r p0 assms(4) pc jk by (rule entry_totalValue_strict_mono)
  then have "num_lt (totalValue (yearlyBreakdown res ! nat (j - 1)))
                    (totalValue (yearlyBreakdown res ! nat (k - 1)))"
    unfolding ej ek yearEntry_totalValue_Fin [OF rnz j(3)] yearEntry_totalValue_Fin [OF rnz k(3)]
    by simp
  with eq show ?thesis by blast
qed

text \<open>
  An initial capital that compounds to the target or beyond asks for no payment, and the
  last yearly value is the compounded capital. The second lemma is the scenario of ten
  years at 8 percent with capital and target both 200000.
\<close>

lemma exact_sufficient_capital_pos_rate:
  assumes "0 < n" "0 < t" "0 < a" "0 \<le> c"
    and "t \<le> c * (1 + a / 100 / 12) ^ nat (n * 12)"
  shows "\<exists>res. calculateInvestment n (Fin t) (Fin a) (Fin c) = Some res
           \<and> monthlyInvestment res = Fin 0
           \<and> totalValue (yearlyBreakdown res ! nat (n - 1)) =
                 Fin (c * (1 + a / 100 / 12) ^ nat (n * 12))
           \<and> num_ge (totalValue (yearlyBreakdown res ! nat (n - 1))) (Fin t)
           \<and> (t < c * (1 + a / 100 / 12) ^ nat (n * 12) \<longrightarrow>
                 num_gt (totalValue (yearlyBreakdown res ! nat (n - 1))) (Fin t))"
proof -
  define r where "r = a / 100 / 12"
  define N where "N = nat (n * 12)"
  define res where "res = \<lparr>monthlyInvestment = Fin 0,
           totalInvested = Fin (0 * real N),
           initialCapital = Fin c,
           totalProfit = Fin (t - 0 * real N - c),
           yearlyBreakdown = map (yearEntry (Fin r) (Fin 0) (Fin c)) [1..n]\<rparr>"
  from assms(5) have p: "0 = (if 0 < t - c * (1 + r) ^ N
                 then (t - c * (1 + r) ^ N) / (((1 + r) ^ N - 1) / r) else 0)"
    by (simp add: r_def N_def)
  have eq: "calculateInvestment n (Fin t) (Fin a) (Fin c) = Some res"
    unfolding res_def using assms(1-4) r_def N_def p by (rule calculateInvestment_pos_rate)
  from assms(1,3) have rnz: "r \<noteq> 0" and n0: "0 \<le> n" and n1: "1 \<le> n"
    by (simp_all add: r_def)
  have "yearlyBreakdown res ! nat (n - 1) = yearEntry (Fin r) (Fin 0) (Fin c) n"
    using n1 by (simp add: res_def map_upto_from_1_nth)
  then have tv: "totalValue (yearlyBreakdown res ! nat (n - 1)) = Fin (c * (1 + r) ^ N)"
    by (simp add: yearEntry_totalValue_Fin [OF rnz n0] N_def)
  have mi: "monthlyInvestment res = Fin 0" by (simp add: res_def)
  from assms(5) have ge: "num_ge (Fin (c * (1 + r) ^ N)) (Fin t)"
    by (simp add: num_ge_def r_def N_def)
  have gt: "num_gt (Fin (c * (1 + r) ^ N)) (Fin t)" if "t < c * (1 + a / 100 / 12) ^ nat (n * 12)"
    using that by (simp add: num_gt_def r_def N_def)
  from eq mi tv ge gt show ?thesis
    unfolding r_def N_def by (intro exI [of _ res]) simp
qed

lemma scenario_capital_already_sufficient:
  "\<exists>res. calculateInvestment 10 (Fin 200000) (Fin 8) (Fin 200000) = Some res
         \<and> monthlyInvestment res = Fin 0
         \<and> num_gt (totalValue (yearlyBreakdown res ! 9)) (Fin 200000)"
proof -
  have "1 < (1 + 8 / 100 / 12 :: real) ^ nat (10 * 12)"
    by (intro one_less_power) simp_all
  then have "(200000::real) < 200000 * (1 + 8 / 100 / 12) ^ nat (10 * 12)"
    by simp
  with exact_sufficient_capital_pos_rate [of 10 200000 8 200000] show ?thesis
    by auto
qed

text \<open>
  The last yearly value is the formula at \<open>monthsElapsed = totalMonths\<close>, and the target
  itself when a payment is due.
\<close>

lemma exact_final_totalValue_pos_rate:
  assumes "0 < n" "0 < t" "0 < a" "0 \<le> c"
  shows "\<exists>res. calculateInvestment n (Fin t) (Fin a) (Fin c) = Some res
           \<and> totalValue (yearlyBreakdown res ! nat (n - 1)) =
                 num_add
                   (num_mul (Fin c) (num_pow (num_add (Fin 1) (monthlyRateOf (Fin a))) (n * 12)))
                   (num_mul (monthlyInvestment res) (annuityFactor (monthlyRateOf (Fin a)) (n * 12)))
           \<and> (num_gt (monthlyInvestment res) (Fin 0) \<longrightarrow>
                 totalValue (yearlyBreakdown res ! nat (n - 1)) = Fin t)"
proof -
  define r where "r = a / 100 / 12"
  define N where "N = nat (n * 12)"
  define p where "p = (if 0 < t - c * (1 + r) ^ N
                       then (t - c * (1 + r) ^ N) / (((1 + r) ^ N - 1) / r) else 0)"
  define res where "res = \<lparr>monthlyInvestment = Fin p,
           totalInvested = Fin (p * real N),
           initialCapital = Fin c,
           totalProfit = Fin (t - p * real N - c),
           yearlyBreakdown = map (yearEntry (Fin r) (Fin p) (Fin c)) [1..n]\<rparr>"
  have r: "0 < r" and N: "0 < N"
    using assms(1,3) by (simp_all add: r_def N_def)
  from assms(1) r have rnz: "r \<noteq> 0" and n0: "0 \<le> n" and n1: "1 \<le> n"
    by simp_all
  have eq: "calculateInvestment n (Fin t) (Fin a) (Fin c) = Some res"
    unfolding res_def using assms r_def N_def p_def by (rule calculateInvestment_pos_rate)
  have rate: "monthlyRateOf (Fin a) = Fin r"
    unfolding r_def by (rule monthlyRateOf_Fin)
  have mi: "monthlyInvestment res = Fin p" by (simp add: res_def)
  have last: "yearlyBreakdown res ! nat (n - 1) = yearEntry (Fin r) (Fin p) (Fin c) n"
    using n1 by (simp add: res_def map_upto_from_1_nth)
  have 1: "totalValue (yearlyBreakdown res ! nat (n - 1)) =
             num_add (num_mul (Fin c) (num_pow (num_add (Fin 1) (monthlyRateOf (Fin a))) (n * 12)))
               (num_mul (monthlyInvestment res) (annuityFactor (monthlyRateOf (Fin a)) (n * 12)))"
    unfolding last mi rate by (rule yearEntry_totalValue)
  have 2: "totalValue (yearlyBreakdown res ! nat (n - 1)) = Fin t" if "0 < p"
  proof -
    have F: "((1 + r) ^ N - 1) / r \<noteq> 0"
      using factor_pos [OF r N] by (rule less_imp_neq [THEN not_sym])
    from that have "0 < t - c * (1 + r) ^ N"
      by (simp add: p_def split: if_splits)
    then have "p = (t - c * (1 + r) ^ N) / (((1 + r) ^ N - 1) / r)"
      by (simp add: p_def)
    with F have "p * (((1 + r) ^ N - 1) / r) = t - c * (1 + r) ^ N"
      by (rule quotient_times_divisor)
    then have "c * (1 + r) ^ N + p * (((1 + r) ^ N - 1) / r) = t" by simp
    then show ?thesis
      unfolding last yearEntry_totalValue_Fin [OF rnz n0] N_def by simp
  qed
  from eq 1 2 show ?thesis
    by (intro exI [of _ res]) (simp add: mi num_gt_def)
qed

text \<open>Between two positive rates the payment does not increase with the rate.\<close>

lemma exact_payment_antimono_pos_rate:
  assumes "0 < n" "0 < t" "0 \<le> c" "0 < a1" "a1 \<le> a2"
  shows "\<exists>res1 res2. calculateInvestment n (Fin t) (Fin a1) (Fin c) = Some res1
           \<and> calculateInvestment n (Fin t) (Fin a2) (Fin c) = Some res2
           \<and> num_le (monthlyInvestment res2) (monthlyInvestment res1)"
proof -
  define N where "N = nat (n * 12)"
  from assms(1) have N: "0 < N" and n: "0 < n" by (simp_all add: N_def)
  from assms(4,5) have a2: "0 < a2" and r: "0 < a1 / 100 / 12" "a1 / 100 / 12 \<le> a2 / 100 / 12"
    by simp_all
  have le: "num_le (monthlyInvestmentOf n (Fin t) (Fin a2) (Fin c))
                   (monthlyInvestmentOf n (Fin t) (Fin a1) (Fin c))"
    unfolding monthlyInvestmentOf_pos_rate [OF n assms(4)] monthlyInvestmentOf_pos_rate [OF n a2]
      num_le.simps N_def [symmetric]
    using r N assms(3) by (rule payment_real_antimono)
  from assms(4) a2 have "0 \<le> a1" "0 \<le> a2" by simp_all
  then show ?thesis
    using le by (simp add: calculateInvestment_Fin assms(1-3))
qed

end
